theory Spec2Isabelle
  imports Main "HOL-Library.AList" "HOL-Library.List_Lexorder" "HOL-Library.Option_ord"
begin

section \<open>Exceptions\<close>

text \<open>
  The Python exceptions that the modelled functions raise or catch. Every one of them
  is a subclass of \<open>Exception\<close>; \<open>TimeoutError\<close> is \<open>asyncio.TimeoutError\<close>.
  \<open>ValueError\<close> and \<open>RuntimeError\<close> carry their message, \<open>Other_error\<close> stands for
  any further exception raised by an external library (transport, model, handshake).
\<close>

datatype py_error =
    JSONDecodeError
  | UnicodeDecodeError
  | UnicodeEncodeError
  | RecursionError
  | OverflowError
  | IndexError
  | AttributeError
  | TypeError
  | TimeoutError
  | ValueError string
  | RuntimeError string
  | Other_error string

section \<open>Python strings\<close>

text \<open>
  A Python \<open>str\<close> is a sequence of code points. A string of the theory is the \<open>str\<close>
  of its characters. A \<open>str\<close> may hold a lone surrogate (U+D800 to U+DFFF), for
  instance from the JSON escape \<open>\ud83d\<close> in the reply of a model or in a file; such a
  \<open>str\<close> cannot be encoded as UTF-8, and writing it to a file opened with
  \<open>encoding="utf-8"\<close> raises \<open>UnicodeEncodeError\<close>.
\<close>

type_synonym py_str = "nat list"

definition str :: "string \<Rightarrow> py_str" where
  "str s = map of_char s"

definition surrogate :: "nat \<Rightarrow> bool" where
  "surrogate c = (0xD800 \<le> c \<and> c \<le> 0xDFFF)"

definition encodable :: "py_str \<Rightarrow> bool" where
  "encodable s = list_all (\<lambda>c. \<not> surrogate c) s"

section \<open>Conversation store (json_history.py)\<close>

text \<open>
  One entry of a conversation is a Python dict with the keys \<open>role\<close>, \<open>content\<close> and,
  when it has been written by \<open>invoke\<close> to the store, \<open>timestamp\<close>; the values are
  \<open>str\<close>. The entries that \<open>invoke\<close> adds to the in-memory history carry no
  timestamp. A table is a dict from thread ids to lists of entries, in the order of
  insertion of its keys.
\<close>

type_synonym thread_id = py_str

record entry =
  role :: py_str
  content :: py_str
  timestamp :: "py_str option"

type_synonym table = "(thread_id \<times> entry list) list"

text \<open>
  \<open>HISTORY_FILE\<close> is represented by what \<open>os.path.getsize\<close>, \<open>f.read()\<close>, \<open>strip\<close> and
  \<open>json.loads\<close> make of it. The bytes of a file that exists are not valid UTF-8, or
  they are the encoding of a text. The text is \<open>n\<close> characters of white space
  (\<open>n = 0\<close> is the file of size zero), or text that \<open>json.loads\<close> rejects with
  \<open>JSONDecodeError\<close>, or JSON nested so deeply that \<open>json.loads\<close> raises
  \<open>RecursionError\<close>, or JSON whose value is not an object (an array, a string, a
  number, \<open>true\<close>, \<open>false\<close>, \<open>null\<close>), or the JSON encoding of a table. The values
  inside a table have the type that \<open>_load_all\<close> is annotated with,
  \<open>Dict[str, List[Dict]]\<close>. Failures of the operating system (permissions, a full
  disk) are outside the model.
\<close>

datatype file_text = White_space nat | Not_json | Too_deep | Json_other | Json table

datatype file_bytes = Invalid_utf8 | Utf8 file_text

datatype history_file = Absent | Present file_bytes

text \<open>
  What \<open>json.loads\<close> returns: a dict, or a value of another type.
\<close>

datatype json_value = Dict table | Non_dict

fun size_is_zero :: "file_bytes \<Rightarrow> bool" where
  "size_is_zero (Utf8 (White_space n)) = (n = 0)"
| "size_is_zero b = False"

text \<open>
  \<open>f.read()\<close> decodes the bytes and raises \<open>UnicodeDecodeError\<close> when they are not
  valid UTF-8.
\<close>

fun read_text :: "file_bytes \<Rightarrow> py_error + file_text" where
  "read_text Invalid_utf8 = Inl UnicodeDecodeError"
| "read_text (Utf8 t) = Inr t"

fun stripped_empty :: "file_text \<Rightarrow> bool" where
  "stripped_empty (White_space n) = True"
| "stripped_empty t = False"

fun json_loads :: "file_text \<Rightarrow> py_error + json_value" where
  "json_loads (White_space n) = Inl JSONDecodeError"
| "json_loads Not_json = Inl JSONDecodeError"
| "json_loads Too_deep = Inl RecursionError"
| "json_loads Json_other = Inr Non_dict"
| "json_loads (Json d) = Inr (Dict d)"

text \<open>
  The \<open>try\<close> block of \<open>_load_all\<close>, and its handler: \<open>except json.JSONDecodeError\<close>
  turns that one exception into the empty table, every other exception passes.
\<close>

definition read_and_parse :: "file_bytes \<Rightarrow> py_error + json_value" where
  "read_and_parse b =
     (case read_text b of
        Inl e \<Rightarrow> Inl e
      | Inr body \<Rightarrow>
          if stripped_empty body then Inr (Dict []) else json_loads body)"

fun load_all :: "history_file \<Rightarrow> py_error + json_value" where
  "load_all Absent = Inr (Dict [])"
| "load_all (Present b) =
     (if size_is_zero b then Inr (Dict [])
      else (case read_and_parse b of
              Inl JSONDecodeError \<Rightarrow> Inr (Dict [])
            | Inl e \<Rightarrow> Inl e
            | Inr v \<Rightarrow> Inr v))"

text \<open>
  \<open>json.dump(data, f, indent=2, ensure_ascii=False)\<close> writes every \<open>str\<close> as it is,
  so the table can be written when each key and each value of each entry can be
  encoded.
\<close>

definition entry_encodable :: "entry \<Rightarrow> bool" where
  "entry_encodable e =
     (encodable (role e) \<and> encodable (content e) \<and>
      (case timestamp e of None \<Rightarrow> True | Some ts \<Rightarrow> encodable ts))"

definition serialisable :: "table \<Rightarrow> bool" where
  "serialisable data =
     list_all (\<lambda>(t, es). encodable t \<and> list_all entry_encodable es) data"

text \<open>
  \<open>_save_all\<close>: \<open>open(HISTORY_FILE, "w")\<close> empties the file, then \<open>json.dump\<close> writes
  the table piece by piece. When a piece cannot be encoded the write raises
  \<open>UnicodeEncodeError\<close>, and the file keeps the pieces written so far: the beginning
  of a JSON object without its end, which \<open>json.loads\<close> rejects. The result is the
  exception, if any, and the file as it is left. There is no temporary file and no
  atomic replacement. The values of an entry are \<open>str\<close> here, as the conversation
  turns of the client are, so the \<open>TypeError\<close> of \<open>json.dump\<close> on a value that it
  cannot serialise, which would leave the file in the same way, does not arise.
\<close>

definition save_all :: "table \<Rightarrow> py_error option \<times> history_file" where
  "save_all data =
     (if serialisable data then (None, Present (Utf8 (Json data)))
      else (Some UnicodeEncodeError, Present (Utf8 Not_json)))"

text \<open>
  Python's \<open>data[i:]\<close>: a negative start counts from the end and is clipped at the
  beginning of the list; a start beyond the end gives the empty list.
\<close>

definition slice_from :: "int \<Rightarrow> 'a list \<Rightarrow> 'a list" where
  "slice_from i xs =
     (if i < 0 then drop (length xs - nat (- i)) xs else drop (nat i) xs)"

text \<open>
  \<open>all_data.get(thread_id, [])\<close>.
\<close>

definition get_record :: "table \<Rightarrow> thread_id \<Rightarrow> entry list" where
  "get_record all_data t = (case map_of all_data t of None \<Rightarrow> [] | Some d \<Rightarrow> d)"

text \<open>
  \<open>load\<close>: a value that is not a dict has no attribute \<open>get\<close>. The limit \<open>last_n\<close> is
  \<open>Optional[int]\<close>; the test \<open>if last_n\<close> is false for \<open>None\<close> and for \<open>0\<close>.
\<close>

definition load :: "history_file \<Rightarrow> thread_id \<Rightarrow> int option \<Rightarrow> py_error + entry list" where
  "load f t last_n =
     (case load_all f of
        Inl e \<Rightarrow> Inl e
      | Inr Non_dict \<Rightarrow> Inl AttributeError
      | Inr (Dict all_data) \<Rightarrow>
          (let data = get_record all_data t
           in Inr (case last_n of
                     None \<Rightarrow> data
                   | Some n \<Rightarrow> if n \<noteq> 0 then slice_from (- n) data else data)))"

text \<open>
  \<open>append\<close> and \<open>clear\<close>: the result is the exception, if any, and the file as the
  call leaves it. An exception of \<open>_load_all\<close> leaves the file as it was; so does the
  \<open>TypeError\<close> that the membership test, the item assignment or the indexing raises
  on a value that is not a dict.
\<close>

definition append_store ::
  "history_file \<Rightarrow> thread_id \<Rightarrow> entry list \<Rightarrow> py_error option \<times> history_file" where
  "append_store f t entries =
     (case load_all f of
        Inl e \<Rightarrow> (Some e, f)
      | Inr Non_dict \<Rightarrow> (Some TypeError, f)
      | Inr (Dict all_data) \<Rightarrow>
          (let all_data1 = (if map_of all_data t = None then AList.update t [] all_data
                            else all_data);
               all_data2 = AList.update t (get_record all_data1 t @ entries) all_data1
           in save_all all_data2))"

definition clear :: "history_file \<Rightarrow> thread_id \<Rightarrow> py_error option \<times> history_file" where
  "clear f t =
     (case load_all f of
        Inl e \<Rightarrow> (Some e, f)
      | Inr Non_dict \<Rightarrow> (Some TypeError, f)
      | Inr (Dict all_data) \<Rightarrow> save_all (AList.update t [] all_data))"

section \<open>Agent responses (agent/agent_data_extraction.py)\<close>

text \<open>
  The response of the agent is a dict whose \<open>messages\<close> entry is a list of message
  objects. A tool call is a dict read with \<open>get("name")\<close> and \<open>get("args")\<close>; the
  metadata of an assistant message is a dict read with \<open>get("model_name")\<close> and
  \<open>get("token_usage", {})\<close>; the artifact of a tool result is a dict read with
  \<open>get("structured_content", {})\<close>. In each record an absent key is \<open>None\<close>.
\<close>

record tool_call =
  tc_name :: "string option"
  tc_args :: "(string \<times> string) list option"

record token_usage =
  prompt_tokens :: "int option"
  completion_tokens :: "int option"
  total_tokens :: "int option"

record response_metadata =
  model_name :: "string option"
  md_token_usage :: "token_usage option"

record contact =
  wa_id :: "string option"

record sent_message =
  sent_id :: "string option"

record structured_content =
  messaging_product :: "string option"
  contacts :: "contact list option"
  sent_messages :: "sent_message list option"

record artifact =
  art_structured_content :: "structured_content option"

text \<open>
  The message classes: \<open>AIMessage\<close> has \<open>content\<close>, \<open>tool_calls\<close> and
  \<open>response_metadata\<close>; \<open>ToolMessage\<close> has \<open>content\<close> and \<open>artifact\<close>, which is
  \<open>None\<close> here when it is \<open>None\<close> or an empty dict in Python (both are false in a
  test); the other subclasses of \<open>BaseMessage\<close> have \<open>content\<close> and no \<open>tool_calls\<close>;
  a message may also be a plain \<open>(role, content)\<close> tuple, or an object of another kind.
  The content of a message is a \<open>str\<close>.
\<close>

datatype message =
    AIMessage py_str "tool_call list" response_metadata
  | ToolMessage py_str "artifact option"
  | HumanMessage py_str
  | SystemMessage py_str
  | Tuple_message py_str py_str
  | Other_message

text \<open>
  What \<open>agent.ainvoke\<close> returns: a dict, with or without the key \<open>messages\<close>, or an
  object that is not a dict.
\<close>

datatype agent_result = Dict_result "message list option" | Other_result

text \<open>
  The three variables of the loop of \<open>extract_agent_data\<close>. Of \<open>final_ai\<close> the code
  reads \<open>content\<close> and \<open>response_metadata\<close>, of \<open>tool_result\<close> the \<open>artifact\<close>.
\<close>

record scan =
  final_ai :: "(py_str \<times> response_metadata) option"
  scan_tool_call :: "tool_call option"
  tool_result :: "artifact option option"

definition scan_init :: scan where
  "scan_init = \<lparr>final_ai = None, scan_tool_call = None, tool_result = None\<rparr>"

fun scan_message :: "scan \<Rightarrow> message \<Rightarrow> scan" where
  "scan_message s (AIMessage c tcs md) =
     (let s1 = (if c \<noteq> [] then s\<lparr>final_ai := Some (c, md)\<rparr> else s)
      in (case tcs of [] \<Rightarrow> s1 | tc # rest \<Rightarrow> s1\<lparr>scan_tool_call := Some tc\<rparr>))"
| "scan_message s (ToolMessage c a) = s\<lparr>tool_result := Some a\<rparr>"
| "scan_message s (HumanMessage c) = s"
| "scan_message s (SystemMessage c) = s"
| "scan_message s (Tuple_message r c) = s"
| "scan_message s Other_message = s"

definition scan_messages :: "message list \<Rightarrow> scan" where
  "scan_messages msgs = foldl scan_message scan_init msgs"

record whatsapp_data =
  wd_messaging_product :: "string option"
  wd_wa_id :: "string option"
  wd_message_id :: "string option"

record tokens =
  tk_prompt :: "int option"
  tk_completion :: "int option"
  tk_total :: "int option"

record agent_data =
  final_message :: "py_str option"
  model :: "string option"
  tool_used :: "string option"
  tool_arguments :: "(string \<times> string) list option"
  whatsapp :: "whatsapp_data option"
  data_tokens :: tokens
  success :: bool

text \<open>
  \<open>xs[0]\<close> raises \<open>IndexError\<close> on the empty list.
\<close>

definition first_item :: "'a list \<Rightarrow> py_error + 'a" where
  "first_item xs = (case xs of [] \<Rightarrow> Inl IndexError | x # rest \<Rightarrow> Inr x)"

text \<open>
  The dict \<open>whatsapp_data\<close>: it stays empty (\<open>None\<close>) without a tool result or without
  an artifact. \<open>structured.get("contacts", [{}])\<close> uses the default only when the key
  is absent.
\<close>

definition empty_structured :: structured_content where
  "empty_structured = \<lparr>messaging_product = None, contacts = None, sent_messages = None\<rparr>"

definition whatsapp_of :: "artifact option option \<Rightarrow> py_error + whatsapp_data option" where
  "whatsapp_of tr =
     (case tr of
        None \<Rightarrow> Inr None
      | Some None \<Rightarrow> Inr None
      | Some (Some art) \<Rightarrow>
          (let structured = (case art_structured_content art of
                               None \<Rightarrow> empty_structured | Some sc \<Rightarrow> sc)
           in (case first_item (case contacts structured of
                                  None \<Rightarrow> [\<lparr>wa_id = None\<rparr>] | Some cs \<Rightarrow> cs) of
                 Inl e \<Rightarrow> Inl e
               | Inr ct \<Rightarrow>
                   (case first_item (case sent_messages structured of
                                       None \<Rightarrow> [\<lparr>sent_id = None\<rparr>] | Some ms \<Rightarrow> ms) of
                      Inl e \<Rightarrow> Inl e
                    | Inr m \<Rightarrow>
                        Inr (Some \<lparr>wd_messaging_product = messaging_product structured,
                                    wd_wa_id = wa_id ct,
                                    wd_message_id = sent_id m\<rparr>)))))"

text \<open>
  \<open>token_usage\<close> is \<open>{}\<close> unless there is a final assistant message whose metadata
  holds the key \<open>token_usage\<close>.
\<close>

definition token_usage_of :: "(py_str \<times> response_metadata) option \<Rightarrow> token_usage" where
  "token_usage_of fa =
     (case fa of
        None \<Rightarrow> \<lparr>prompt_tokens = None, completion_tokens = None, total_tokens = None\<rparr>
      | Some (c, md) \<Rightarrow>
          (case md_token_usage md of
             None \<Rightarrow> \<lparr>prompt_tokens = None, completion_tokens = None, total_tokens = None\<rparr>
           | Some u \<Rightarrow> u))"

text \<open>
  \<open>bool(whatsapp_data.get("message_id"))\<close>: true for a message id that is present and
  not the empty string.
\<close>

definition has_message_id :: "whatsapp_data option \<Rightarrow> bool" where
  "has_message_id wd =
     (case wd of
        None \<Rightarrow> False
      | Some d \<Rightarrow> (case wd_message_id d of None \<Rightarrow> False | Some i \<Rightarrow> i \<noteq> []))"

definition extract_agent_data :: "agent_result \<Rightarrow> py_error + agent_data" where
  "extract_agent_data response =
     (case response of
        Other_result \<Rightarrow> Inl AttributeError
      | Dict_result mo \<Rightarrow>
          (let s = scan_messages (case mo of None \<Rightarrow> [] | Some msgs \<Rightarrow> msgs);
               usage = token_usage_of (final_ai s)
           in (case whatsapp_of (tool_result s) of
                 Inl e \<Rightarrow> Inl e
               | Inr wd \<Rightarrow>
                   Inr \<lparr>final_message = map_option fst (final_ai s),
                        model = (case final_ai s of
                                   None \<Rightarrow> None | Some (c, md) \<Rightarrow> model_name md),
                        tool_used = (case scan_tool_call s of
                                       None \<Rightarrow> None | Some tc \<Rightarrow> tc_name tc),
                        tool_arguments = (case scan_tool_call s of
                                            None \<Rightarrow> None | Some tc \<Rightarrow> tc_args tc),
                        whatsapp = wd,
                        data_tokens = \<lparr>tk_prompt = prompt_tokens usage,
                                       tk_completion = completion_tokens usage,
                                       tk_total = total_tokens usage\<rparr>,
                        success = has_message_id wd\<rparr>)))"

section \<open>The printed summary (agent/agent_logging.py, utils/cost_calculation.py)\<close>

definition startswith :: "string \<Rightarrow> string \<Rightarrow> bool" where
  "startswith s prefix = (take (length prefix) s = prefix)"

text \<open>
  \<open>normalize_model_name\<close>: \<open>if not model\<close> holds for \<open>None\<close> and for the empty string.
\<close>

definition normalize_model_name :: "string option \<Rightarrow> string" where
  "normalize_model_name m =
     (case m of
        None \<Rightarrow> []
      | Some n \<Rightarrow>
          if n = [] then []
          else if startswith n ''gpt-4o-mini'' then ''gpt-4o-mini''
          else n)"

text \<open>
  An \<open>int\<close> times a \<open>float\<close> converts the \<open>int\<close> to a \<open>float\<close> first; the conversion
  raises \<open>OverflowError\<close> when the \<open>int\<close>, rounded to 53 bits, does not fit the double
  format, that is from \<open>2 ^ 1024 - 2 ^ 970\<close> on in absolute value.
\<close>

definition float_overflow :: "int \<Rightarrow> bool" where
  "float_overflow n = (2 ^ 1024 - 2 ^ 970 \<le> \<bar>n\<bar>)"

text \<open>
  \<open>calculate_llm_cost\<close>: \<open>MODEL_PRICING\<close> has the one key \<open>gpt-4o-mini\<close>; without a
  price the cost is \<open>0.0\<close>. The floating-point value of the cost is not modelled,
  only whether computing it raises: the sum and \<open>round(..., 6)\<close> of floats do not
  raise.
\<close>

definition calculate_llm_cost :: "string option \<Rightarrow> int \<Rightarrow> int \<Rightarrow> py_error + unit" where
  "calculate_llm_cost m prompt completion =
     (if normalize_model_name m \<noteq> ''gpt-4o-mini'' then Inr ()
      else if float_overflow prompt then Inl OverflowError
      else if float_overflow completion then Inl OverflowError
      else Inr ())"

text \<open>
  Formatting an \<open>int\<close> of more than 4300 decimal digits raises \<open>ValueError\<close> (the
  default of \<open>sys.get_int_max_str_digits()\<close>); the message begins as given here.
\<close>

definition too_many_digits :: "int option \<Rightarrow> bool" where
  "too_many_digits n = (case n of None \<Rightarrow> False | Some i \<Rightarrow> 10 ^ 4300 \<le> \<bar>i\<bar>)"

text \<open>
  \<open>print_agent_summary\<close>: the cost is computed from \<open>tokens["prompt"] or 0\<close> and
  \<open>tokens["completion"] or 0\<close>, then the summary is printed, the three token counts
  among it. What \<open>print\<close> does with a character that the encoding of the terminal
  does not have depends on the terminal and is outside the model.
\<close>

definition int_or_zero :: "int option \<Rightarrow> int" where
  "int_or_zero n = (case n of None \<Rightarrow> 0 | Some i \<Rightarrow> i)"

definition print_agent_summary :: "agent_data \<Rightarrow> py_error + unit" where
  "print_agent_summary d =
     (case calculate_llm_cost (model d)
             (int_or_zero (tk_prompt (data_tokens d)))
             (int_or_zero (tk_completion (data_tokens d))) of
        Inl e \<Rightarrow> Inl e
      | Inr cost \<Rightarrow>
          if too_many_digits (tk_prompt (data_tokens d)) \<or>
             too_many_digits (tk_completion (data_tokens d)) \<or>
             too_many_digits (tk_total (data_tokens d))
          then Inl (ValueError ''Exceeds the limit (4300 digits) for integer string conversion'')
          else Inr ())"

section \<open>Server specs (mcp_servers.py)\<close>

record server_spec =
  name :: string
  transport :: string
  path :: "string option"
  args :: "string list option"
  url :: "string option"
  headers :: "(string \<times> string) list option"

section \<open>The client (client_v4.py)\<close>

text \<open>
  A tool is an opaque handle with a name. The agent built by \<open>create_agent\<close> is used
  through \<open>ainvoke\<close> only: given the prompt state, a list of \<open>(role, content)\<close> pairs,
  the call raises or returns a response.
\<close>

datatype tool = Tool string

datatype agent_outcome = Raises py_error | Returns agent_result

type_synonym agent = "(py_str \<times> py_str) list \<Rightarrow> agent_outcome"

text \<open>
  What is open towards a server: the transport of \<open>stdio_client\<close> (the subprocess
  started with a command and its arguments), the \<open>ClientSession\<close> on top of it, and the
  session that \<open>MultiServerMCPClient.get_tools\<close> opens for the time of the call.
\<close>

datatype resource =
    Stdio_transport string "string list"
  | Client_session string
  | Http_session string

text \<open>
  The behaviour of the libraries and servers outside the repository is a parameter.
  For a stdio server: which of the four awaited steps of \<open>_connect_stdio\<close> raises, or
  the value of \<open>load_mcp_tools\<close>. For an http server: \<open>get_tools\<close> raises or returns.
\<close>

datatype stdio_outcome =
    Spawn_fails py_error
  | Session_fails py_error
  | Initialize_fails py_error
  | Load_tools_fails py_error
  | Stdio_tools "tool list option"

datatype http_outcome = Http_fails py_error | Http_tools "tool list"

record world =
  stdio_server :: "server_spec \<Rightarrow> stdio_outcome"
  http_server :: "server_spec \<Rightarrow> http_outcome"
  create_agent :: "tool list \<Rightarrow> py_error + agent"
  release_error :: "resource \<Rightarrow> py_error option"
  agent_debug :: bool
  utc_now :: string
  str_of :: "agent_result \<Rightarrow> py_str"

text \<open>
  The fields of \<open>MCPClient\<close>. \<open>exit_stack\<close> holds the entered context managers, the
  most recent first. \<open>opened\<close> and \<open>released\<close> are not fields of the class: they log,
  in order, every resource that has been opened and every resource that has been
  released, so that statements about connections can be made.
\<close>

record mcp_client =
  thread_id :: thread_id
  servers :: "server_spec list"
  exit_stack :: "resource list"
  sessions :: "resource list"
  tools :: "tool list"
  agent :: "agent option"
  history :: "entry list"
  opened :: "resource list"
  released :: "resource list"

text \<open>
  \<open>__init__\<close>: \<open>thread_id or str(uuid.uuid4())\<close> takes the fresh identifier for \<open>None\<close>
  and for the empty string; the history is the last four stored entries.
\<close>

definition new_client ::
  "string \<Rightarrow> history_file \<Rightarrow> server_spec list \<Rightarrow> thread_id option \<Rightarrow> py_error + mcp_client" where
  "new_client uuid4 f specs tid =
     (let t = (case tid of None \<Rightarrow> str uuid4 | Some i \<Rightarrow> if i = [] then str uuid4 else i)
      in (case load f t (Some 4) of
            Inl e \<Rightarrow> Inl e
          | Inr h \<Rightarrow>
              Inr \<lparr>thread_id = t, servers = specs, exit_stack = [], sessions = [],
                   tools = [], agent = None, history = h, opened = [], released = []\<rparr>))"

text \<open>
  \<open>exit_stack.enter_async_context\<close> of a context manager that has been entered.
\<close>

definition enter_context :: "resource \<Rightarrow> mcp_client \<Rightarrow> mcp_client" where
  "enter_context r c = c\<lparr>exit_stack := r # exit_stack c, opened := opened c @ [r]\<rparr>"

definition endswith :: "string \<Rightarrow> string \<Rightarrow> bool" where
  "endswith s suffix =
     (length suffix \<le> length s \<and> drop (length s - length suffix) s = suffix)"

text \<open>
  \<open>_connect_stdio\<close>: \<open>spec.path.endswith\<close> raises \<open>AttributeError\<close> for a spec without
  a path. A context manager whose entry raises is not put on the stack.
\<close>

definition connect_stdio ::
  "world \<Rightarrow> server_spec \<Rightarrow> mcp_client \<Rightarrow> (py_error + tool list) \<times> mcp_client" where
  "connect_stdio w spec c =
     (case path spec of
        None \<Rightarrow> (Inl AttributeError, c)
      | Some p \<Rightarrow>
          (let params = Stdio_transport (if endswith p ''.py'' then ''python'' else ''node'')
                          (p # (case args spec of None \<Rightarrow> [] | Some xs \<Rightarrow> xs));
               c1 = enter_context params c;
               c2 = enter_context (Client_session (name spec)) c1;
               c3 = c2\<lparr>sessions := sessions c2 @ [Client_session (name spec)]\<rparr>
           in (case stdio_server w spec of
                 Spawn_fails e \<Rightarrow> (Inl e, c)
               | Session_fails e \<Rightarrow> (Inl e, c1)
               | Initialize_fails e \<Rightarrow> (Inl e, c2)
               | Load_tools_fails e \<Rightarrow> (Inl e, c3)
               | Stdio_tools ts \<Rightarrow> (Inr (case ts of None \<Rightarrow> [] | Some l \<Rightarrow> l), c3))))"

text \<open>
  \<open>_connect_http\<close>: nothing is put on the exit stack; the session of \<open>get_tools\<close> is
  opened and released inside the call.
\<close>

definition connect_http ::
  "world \<Rightarrow> server_spec \<Rightarrow> mcp_client \<Rightarrow> (py_error + tool list) \<times> mcp_client" where
  "connect_http w spec c =
     (case http_server w spec of
        Http_fails e \<Rightarrow> (Inl e, c)
      | Http_tools ts \<Rightarrow>
          (Inr ts, c\<lparr>opened := opened c @ [Http_session (name spec)],
                     released := released c @ [Http_session (name spec)]\<rparr>))"

text \<open>
  The \<open>for\<close> loop of \<open>connect\<close>, with the local list \<open>tools\<close>.
\<close>

fun connect_loop ::
  "world \<Rightarrow> server_spec list \<Rightarrow> tool list \<Rightarrow> mcp_client \<Rightarrow> (py_error + tool list) \<times> mcp_client" where
  "connect_loop w [] acc c = (Inr acc, c)"
| "connect_loop w (spec # specs) acc c =
     (if transport spec = ''stdio'' then
        (case connect_stdio w spec c of
           (Inl e, c') \<Rightarrow> (Inl e, c')
         | (Inr ts, c') \<Rightarrow> connect_loop w specs (acc @ ts) c')
      else if transport spec = ''http'' then
        (case connect_http w spec c of
           (Inl e, c') \<Rightarrow> (Inl e, c')
         | (Inr ts, c') \<Rightarrow> connect_loop w specs (acc @ ts) c')
      else (Inl (ValueError (''Unsupported transport: '' @ transport spec)), c))"

text \<open>
  \<open>connect\<close>: the handler prints and raises the exception again, so the result is the
  exception (or \<open>None\<close>) together with the client as the call leaves it.
\<close>

definition connect :: "world \<Rightarrow> mcp_client \<Rightarrow> py_error option \<times> mcp_client" where
  "connect w c =
     (case connect_loop w (servers c) [] c of
        (Inl e, c') \<Rightarrow> (Some e, c')
      | (Inr ts, c') \<Rightarrow>
          (if ts = [] then (Some (RuntimeError ''No MCP tools discovered''), c')
           else (let c'' = c'\<lparr>tools := ts\<rparr>
                 in (case create_agent w ts of
                       Inl e \<Rightarrow> (Some e, c'')
                     | Inr a \<Rightarrow> (None, c''\<lparr>agent := Some a\<rparr>)))))"

text \<open>
  \<open>close\<close>: \<open>AsyncExitStack.aclose\<close> empties the stack and leaves every context
  manager on it, the most recent first, also after one of them has raised; the
  exception raised last is the one that reaches the caller.
\<close>

fun last_error :: "py_error option list \<Rightarrow> py_error option" where
  "last_error [] = None"
| "last_error (e # es) = (case last_error es of None \<Rightarrow> e | Some e' \<Rightarrow> Some e')"

definition close :: "world \<Rightarrow> mcp_client \<Rightarrow> py_error option \<times> mcp_client" where
  "close w c =
     (last_error (map (release_error w) (exit_stack c)),
      c\<lparr>exit_stack := [], released := released c @ exit_stack c\<rparr>)"

text \<open>
  \<open>SYSTEM_MESSAGE\<close> (prompt_library/prompt.py): the stripped prompt, its lines joined
  by the newline character.
\<close>

definition SYSTEM_PROMPT :: string where
  "SYSTEM_PROMPT =
     ''You are an enterprise-grade WhatsApp AI assistant.'' @ [CHR 0x0A, CHR 0x0A] @
     ''Rules:'' @ [CHR 0x0A] @
     ''1. Always be concise, polite, and professional.'' @ [CHR 0x0A] @
     ''2. Only use tools when necessary.'' @ [CHR 0x0A] @
     ''3. Never hallucinate phone numbers or API responses.'' @ [CHR 0x0A] @
     ''4. Confirm successful message delivery.'' @ [CHR 0x0A] @
     ''5. If an error occurs, explain it clearly.'' @ [CHR 0x0A] @
     ''6. Never expose internal system details.'' @ [CHR 0x0A] @
     ''7. Prefer accuracy over verbosity.''"

definition SYSTEM_MESSAGE :: "py_str \<times> py_str" where
  "SYSTEM_MESSAGE = (str ''system'', str SYSTEM_PROMPT)"

text \<open>
  The two strings that \<open>invoke\<close> returns from its handlers. The first starts with the
  warning sign U+26A0 and the variation selector U+FE0F.
\<close>

definition timeout_reply :: py_str where
  "timeout_reply = [0x26A0, 0xFE0F] @ str '' Request timed out. Please try again.''"

definition technical_reply :: py_str where
  "technical_reply =
     str (''Sorry, I encountered a technical issue. '' @ ''Please try again shortly.'')"

text \<open>
  \<open>xs[-1]\<close> raises \<open>IndexError\<close> on the empty list.
\<close>

definition last_item :: "'a list \<Rightarrow> py_error + 'a" where
  "last_item xs = (if xs = [] then Inl IndexError else Inr (last xs))"

text \<open>
  \<open>_extract_text\<close>: the content of the last message when the result is a dict with the
  key \<open>messages\<close> and the last message is a \<open>BaseMessage\<close>, the second component when
  it is a tuple, and \<open>str(result)\<close> in every other case.
\<close>

definition extract_text :: "(agent_result \<Rightarrow> py_str) \<Rightarrow> agent_result \<Rightarrow> py_error + py_str" where
  "extract_text to_str result =
     (case result of
        Dict_result (Some msgs) \<Rightarrow>
          (case last_item msgs of
             Inl e \<Rightarrow> Inl e
           | Inr (AIMessage c tcs md) \<Rightarrow> Inr c
           | Inr (ToolMessage c a) \<Rightarrow> Inr c
           | Inr (HumanMessage c) \<Rightarrow> Inr c
           | Inr (SystemMessage c) \<Rightarrow> Inr c
           | Inr (Tuple_message r c) \<Rightarrow> Inr c
           | Inr Other_message \<Rightarrow> Inr (to_str result))
      | Dict_result None \<Rightarrow> Inr (to_str result)
      | Other_result \<Rightarrow> Inr (to_str result))"

text \<open>
  The prompt state that \<open>invoke\<close> hands to the agent.
\<close>

definition prompt_state :: "entry list \<Rightarrow> py_str \<Rightarrow> (py_str \<times> py_str) list" where
  "prompt_state h user_input =
     [SYSTEM_MESSAGE] @ map (\<lambda>e. (role e, content e)) h @ [(str ''user'', user_input)]"

text \<open>
  With \<open>ENABLE_AGENT_DEBUG\<close> the response goes through \<open>extract_agent_data\<close> and
  \<open>print_agent_summary\<close>.
\<close>

definition debug_summary :: "world \<Rightarrow> agent_result \<Rightarrow> py_error + unit" where
  "debug_summary w result =
     (if agent_debug w then
        (case extract_agent_data result of
           Inl e \<Rightarrow> Inl e
         | Inr d \<Rightarrow> print_agent_summary d)
      else Inr ())"

text \<open>
  The body of the \<open>try\<close> block of \<open>invoke\<close>: the value or the exception, with the
  client and the file as the block leaves them. An unconnected client has
  \<open>self.agent = None\<close>, whose attribute \<open>ainvoke\<close> does not exist. The timestamp is the
  text of \<open>datetime.now(timezone.utc).isoformat()\<close>. When \<open>append\<close> raises, the file
  is as \<open>append\<close> leaves it and the history has not been extended.
\<close>

definition invoke_try ::
  "world \<Rightarrow> py_str \<Rightarrow> mcp_client \<Rightarrow> history_file \<Rightarrow>
     (py_error + py_str) \<times> mcp_client \<times> history_file" where
  "invoke_try w user_input c f =
     (case agent c of
        None \<Rightarrow> (Inl AttributeError, c, f)
      | Some a \<Rightarrow>
          (case a (prompt_state (history c) user_input) of
             Raises e \<Rightarrow> (Inl e, c, f)
           | Returns result \<Rightarrow>
               (case debug_summary w result of
                  Inl e \<Rightarrow> (Inl e, c, f)
                | Inr u \<Rightarrow>
                    (case extract_text (str_of w) result of
                       Inl e \<Rightarrow> (Inl e, c, f)
                     | Inr message \<Rightarrow>
                         (case append_store f (thread_id c)
                                 [\<lparr>role = str ''user'', content = user_input,
                                   timestamp = Some (str (utc_now w))\<rparr>,
                                  \<lparr>role = str ''assistant'', content = message,
                                   timestamp = Some (str (utc_now w))\<rparr>] of
                            (Some e, f') \<Rightarrow> (Inl e, c, f')
                          | (None, f') \<Rightarrow>
                              (Inr message,
                               c\<lparr>history := history c @
                                   [\<lparr>role = str ''user'', content = user_input,
                                     timestamp = None\<rparr>,
                                    \<lparr>role = str ''assistant'', content = message,
                                     timestamp = None\<rparr>]\<rparr>,
                               f'))))))"

text \<open>
  \<open>invoke\<close>: \<open>except asyncio.TimeoutError\<close> comes first, \<open>except Exception\<close> takes every
  other exception; neither handler raises.
\<close>

definition invoke ::
  "world \<Rightarrow> py_str \<Rightarrow> mcp_client \<Rightarrow> history_file \<Rightarrow> py_str \<times> mcp_client \<times> history_file" where
  "invoke w user_input c f =
     (case invoke_try w user_input c f of
        (Inr message, c', f') \<Rightarrow> (message, c', f')
      | (Inl TimeoutError, c', f') \<Rightarrow> (timeout_reply, c', f')
      | (Inl e, c', f') \<Rightarrow> (technical_reply, c', f'))"

text \<open>
  \<open>reset\<close>: an exception of \<open>clear\<close> passes, and the history is then not emptied.
\<close>

definition reset ::
  "mcp_client \<Rightarrow> history_file \<Rightarrow> py_error option \<times> mcp_client \<times> history_file" where
  "reset c f =
     (case clear f (thread_id c) of
        (Some e, f') \<Rightarrow> (Some e, c, f')
      | (None, f') \<Rightarrow> (None, c\<lparr>history := []\<rparr>, f'))"

section \<open>Notions used in the statements\<close>

text \<open>
  The part of a record that a limit selects in \<open>load\<close>.
\<close>

definition window :: "int option \<Rightarrow> 'a list \<Rightarrow> 'a list" where
  "window n data =
     (case n of
        None \<Rightarrow> data
      | Some k \<Rightarrow> if k \<noteq> 0 then slice_from (- k) data else data)"

text \<open>
  In the words of the specification of \<open>load\<close>: the most recent \<open>k\<close> turns of a record.
\<close>

definition most_recent :: "nat \<Rightarrow> 'a list \<Rightarrow> 'a list" where
  "most_recent k xs = drop (length xs - k) xs"

text \<open>
  A message that makes the loop of \<open>extract_agent_data\<close> assign \<open>tool_call\<close>, and one
  that makes it assign \<open>tool_result\<close>.
\<close>

fun has_tool_calls :: "message \<Rightarrow> bool" where
  "has_tool_calls (AIMessage c (tc # tcs) md) = True"
| "has_tool_calls m = False"

fun is_tool_message :: "message \<Rightarrow> bool" where
  "is_tool_message (ToolMessage c a) = True"
| "is_tool_message m = False"

text \<open>
  Every resource that has been opened has been released or is on the exit stack.
\<close>

definition tracked :: "mcp_client \<Rightarrow> bool" where
  "tracked c = (set (opened c) \<subseteq> set (released c) \<union> set (exit_stack c))"

section \<open>Concrete values\<close>

definition turn_one :: entry where
  "turn_one = \<lparr>role = str ''user'', content = str ''hi'',
                timestamp = Some (str ''2024-05-01T10:00:00+00:00'')\<rparr>"

definition turn_two :: entry where
  "turn_two = \<lparr>role = str ''assistant'', content = str ''hello'',
                timestamp = Some (str ''2024-05-01T10:00:00+00:00'')\<rparr>"

definition turn_three :: entry where
  "turn_three = \<lparr>role = str ''user'', content = str ''send it'',
                  timestamp = Some (str ''2024-05-01T10:01:00+00:00'')\<rparr>"

text \<open>
  A turn whose content ends with the lone surrogate U+D83D, the first half of an emoji
  whose second half is missing.
\<close>

definition half_emoji_turn :: entry where
  "half_emoji_turn = \<lparr>role = str ''user'', content = str ''ok '' @ [0xD83D],
                       timestamp = Some (str ''2024-05-01T10:03:00+00:00'')\<rparr>"

definition one_thread_table :: table where
  "one_thread_table = [(str ''t1'', [turn_one, turn_two, turn_three])]"

definition one_thread_file :: history_file where
  "one_thread_file = Present (Utf8 (Json one_thread_table))"

definition no_metadata :: response_metadata where
  "no_metadata = \<lparr>model_name = None, md_token_usage = None\<rparr>"

definition delivered :: artifact where
  "delivered =
     \<lparr>art_structured_content =
        Some \<lparr>messaging_product = Some ''whatsapp'',
              contacts = Some [\<lparr>wa_id = Some ''4915112345''\<rparr>],
              sent_messages = Some [\<lparr>sent_id = Some ''wamid.42''\<rparr>]\<rparr>\<rparr>"

definition no_contacts :: artifact where
  "no_contacts =
     \<lparr>art_structured_content =
        Some \<lparr>messaging_product = Some ''whatsapp'',
              contacts = Some [],
              sent_messages = Some [\<lparr>sent_id = Some ''wamid.42''\<rparr>]\<rparr>\<rparr>"

definition call_lookup :: tool_call where
  "call_lookup = \<lparr>tc_name = Some ''lookup_contact'', tc_args = Some [(''name'', ''Ann'')]\<rparr>"

definition call_send :: tool_call where
  "call_send = \<lparr>tc_name = Some ''send_message'', tc_args = Some [(''to'', ''4915112345'')]\<rparr>"

definition two_calls :: "message list" where
  "two_calls =
     [HumanMessage (str ''send it''),
      AIMessage [] [call_lookup] no_metadata,
      ToolMessage (str ''found'') (Some delivered),
      AIMessage [] [call_send] no_metadata,
      ToolMessage (str ''sent'') None,
      AIMessage (str ''Done'') [] no_metadata]"

definition local_spec :: server_spec where
  "local_spec = \<lparr>name = ''local'', transport = ''stdio'', path = Some ''server.py'',
                  args = None, url = None, headers = None\<rparr>"

definition remote_spec :: server_spec where
  "remote_spec = \<lparr>name = ''whatsapp'', transport = ''http'', path = None, args = None,
                   url = Some ''https://example.org/mcp'', headers = None\<rparr>"

definition socket_spec :: server_spec where
  "socket_spec = \<lparr>name = ''socket'', transport = ''websocket'', path = None, args = None,
                   url = Some ''wss://example.org/mcp'', headers = None\<rparr>"

text \<open>
  Agents: one that answers, one that runs into the timeout, one whose call fails, and
  one whose answer ends with a lone surrogate.
\<close>

definition greeting_agent :: agent where
  "greeting_agent state =
     Returns (Dict_result (Some [HumanMessage (str ''hi''),
                                 AIMessage (str ''Hello'') [] no_metadata]))"

definition slow_agent :: agent where
  "slow_agent state = Raises TimeoutError"

definition broken_agent :: agent where
  "broken_agent state = Raises (Other_error ''rate limit'')"


text \<open>
  A world in which every stdio server offers one tool and every http server refuses
  the connection.
\<close>

definition one_tool_world :: world where
  "one_tool_world =
     \<lparr>stdio_server = (\<lambda>spec. Stdio_tools (Some [Tool ''send_message''])),
      http_server = (\<lambda>spec. Http_fails (Other_error ''connection refused'')),
      create_agent = (\<lambda>ts. Inr greeting_agent),
      release_error = (\<lambda>r. None),
      agent_debug = False,
      utc_now = ''2024-05-01T10:02:00+00:00'',
      str_of = (\<lambda>r. str ''result'')\<rparr>"

text \<open>
  A world without any tool.
\<close>

definition no_tool_world :: world where
  "no_tool_world = one_tool_world\<lparr>stdio_server := (\<lambda>spec. Stdio_tools None)\<rparr>"

definition client_of :: "server_spec list \<Rightarrow> agent option \<Rightarrow> mcp_client" where
  "client_of specs a =
     \<lparr>thread_id = str ''t1'', servers = specs, exit_stack = [], sessions = [], tools = [],
      agent = a, history = [turn_two, turn_three], opened = [], released = []\<rparr>"

text \<open>
  The client after connecting to \<open>local_spec\<close> in \<open>one_tool_world\<close>.
\<close>

definition local_client :: "server_spec list \<Rightarrow> mcp_client" where
  "local_client specs =
     (client_of specs None)
       \<lparr>exit_stack := [Client_session ''local'', Stdio_transport ''python'' [''server.py'']],
        sessions := [Client_session ''local''],
        opened := [Stdio_transport ''python'' [''server.py''], Client_session ''local'']\<rparr>"
section \<open>Python strings: properties\<close>

lemma str_eq_iff: "str a = str b \<longleftrightarrow> a = b"
  by (simp add: str_def inj_map_eq_map [OF inj_of_char])

lemma encodable_str: "encodable (str s)"
proof -
  have "\<not> surrogate (of_char c)" for c :: char
    using nat_of_char_less_256 [of c] unfolding surrogate_def by linarith
  then show ?thesis
    by (simp add: encodable_def str_def list_all_iff)
qed

lemma encodable_append: "encodable (a @ b) \<longleftrightarrow> encodable a \<and> encodable b"
  by (simp add: encodable_def)

section \<open>Conversation store: properties\<close>

lemma load_Dict:
  "load_all f = Inr (Dict d) \<Longrightarrow> load f t n = Inr (window n (get_record d t))"
  by (simp add: load_def Let_def window_def)

lemma window_Nil: "window n [] = []"
  by (simp add: window_def slice_from_def split: option.splits)

lemma load_all_written: "load_all (Present (Utf8 (Json d))) = Inr (Dict d)"
  by (simp add: read_and_parse_def)

lemma save_all_ok: "serialisable d \<Longrightarrow> save_all d = (None, Present (Utf8 (Json d)))"
  by (simp add: save_all_def)

lemma append_store_Dict:
  assumes "load_all f = Inr (Dict d)"
  shows "append_store f t es = save_all (AList.update t (get_record d t @ es) d)"
proof (cases "map_of d t")
  case None
  with assms show ?thesis
    by (simp add: append_store_def get_record_def Let_def AList.update_conv')
next
  case (Some old)
  with assms show ?thesis
    by (simp add: append_store_def get_record_def Let_def)
qed

lemma clear_Dict: "load_all f = Inr (Dict d) \<Longrightarrow> clear f t = save_all (AList.update t [] d)"
  by (simp add: clear_def)

lemma get_record_update:
  "get_record (AList.update t es d) u = (if u = t then es else get_record d u)"
  by (simp add: get_record_def AList.update_conv')

lemma serialisable_update:
  "serialisable d \<Longrightarrow> encodable t \<Longrightarrow> list_all entry_encodable es \<Longrightarrow>
     serialisable (AList.update t es d)"
  by (induction d) (auto simp: serialisable_def)

lemma serialisable_record:
  "serialisable d \<Longrightarrow> list_all entry_encodable (get_record d t)"
proof (cases "map_of d t")
  case None
  then show ?thesis by (simp add: get_record_def)
next
  case (Some es)
  assume "serialisable d"
  moreover from Some have "(t, es) \<in> set d"
    by (rule map_of_SomeD)
  ultimately have "list_all entry_encodable es"
    by (auto simp: serialisable_def list_all_iff)
  with Some show ?thesis by (simp add: get_record_def)
qed

lemma length_most_recent: "length (most_recent k xs) = min k (length xs)"
  by (simp add: most_recent_def)

lemma load_one_thread:
  "load_all one_thread_file = Inr (Dict one_thread_table)"
  unfolding one_thread_file_def by (rule load_all_written)

lemma record_one_thread:
  "get_record one_thread_table (str ''t1'') = [turn_one, turn_two, turn_three]"
  by (simp add: get_record_def one_thread_table_def)

lemma serialisable_one_thread: "serialisable one_thread_table"
  by (simp add: serialisable_def one_thread_table_def entry_encodable_def encodable_str
        turn_one_def turn_two_def turn_three_def)

lemma half_emoji_not_encodable: "\<not> entry_encodable half_emoji_turn"
  by (simp add: entry_encodable_def half_emoji_turn_def encodable_def surrogate_def)

text \<open>
  Claim C5. The claim is that \<open>load\<close> never raises and that a file that cannot be
  parsed degrades to an empty result. The handler of \<open>_load_all\<close> catches
  \<open>JSONDecodeError\<close> only: on a file whose bytes are not valid UTF-8 \<open>f.read()\<close>
  raises \<open>UnicodeDecodeError\<close>, on JSON nested too deeply \<open>json.loads\<close> raises
  \<open>RecursionError\<close>, and on JSON that is not an object \<open>all_data.get\<close> raises
  \<open>AttributeError\<close>; each of them leaves \<open>load\<close>.
\<close>

theorem load_raises_on_corrupted_file:
  "load (Present Invalid_utf8) t n = Inl UnicodeDecodeError \<and>
   load (Present (Utf8 Too_deep)) t n = Inl RecursionError \<and>
   load (Present (Utf8 Json_other)) t n = Inl AttributeError"
  by (simp add: load_def read_and_parse_def)

text \<open>
  Where \<open>load\<close> does degrade: the file is absent, empty or blank, or \<open>json.loads\<close>
  rejects it with \<open>JSONDecodeError\<close>; and a thread that a stored table does not know
  has the empty record.
\<close>

lemma load_degrades:
  "load Absent t n = Inr [] \<and>
   load (Present (Utf8 (White_space k))) t n = Inr [] \<and>
   load (Present (Utf8 Not_json)) t n = Inr [] \<and>
   (map_of d t = None \<longrightarrow> load (Present (Utf8 (Json d))) t n = Inr [])"
  by (simp add: load_def read_and_parse_def get_record_def window_Nil [unfolded window_def])

text \<open>
  Claim C8, as stated: with a limit \<open>n \<ge> 0\<close> and a record of \<open>K\<close> turns, \<open>load\<close>
  returns the most recent \<open>min n K\<close> turns. For \<open>n = 0\<close> that is no turn, but the test
  \<open>if last_n\<close> takes \<open>0\<close> like an absent limit and the whole record comes back.
\<close>

theorem load_limit_zero_counterexample:
  "load one_thread_file (str ''t1'') (Some 0) = Inr [turn_one, turn_two, turn_three] \<and>
   most_recent (min 0 3) [turn_one, turn_two, turn_three] = [] \<and>
   [turn_one, turn_two, turn_three] \<noteq> []"
  by (simp add: load_Dict [OF load_one_thread] record_one_thread window_def most_recent_def)

text \<open>
  Claim C8, amended. With a limit \<open>n \<ge> 1\<close> and a record of \<open>K\<close> turns, \<open>load\<close> returns
  the most recent \<open>min n K\<close> turns, in their order; with an absent limit, and with the
  limit \<open>0\<close>, it returns all \<open>K\<close> turns.
\<close>

theorem load_limit:
  assumes "load_all f = Inr (Dict d)"
  shows "(1 \<le> n \<longrightarrow>
            load f t (Some n) =
              Inr (most_recent (min (nat n) (length (get_record d t))) (get_record d t))) \<and>
         load f t None = Inr (get_record d t) \<and>
         load f t (Some 0) = Inr (get_record d t)"
  using assms
  by (auto simp: load_Dict window_def most_recent_def slice_from_def min_def)

theorem load_limit_witness:
  "load one_thread_file (str ''t1'') (Some 2) = Inr [turn_two, turn_three] \<and>
   load one_thread_file (str ''t1'') (Some 5) = Inr [turn_one, turn_two, turn_three] \<and>
   load one_thread_file (str ''t1'') None = Inr [turn_one, turn_two, turn_three]"
  using load_limit [OF load_one_thread, of 2 "str ''t1''"]
    load_limit [OF load_one_thread, of 5 "str ''t1''"]
  by (simp add: record_one_thread most_recent_def)

text \<open>
  Claim C9, as stated: for a thread that the store does not know and every sequence of
  turns, \<open>append\<close> followed by \<open>load\<close> returns the turns. A turn whose content holds a
  lone surrogate cannot be written: \<open>json.dump\<close> raises \<open>UnicodeEncodeError\<close> after the
  file has been opened for writing, \<open>append\<close> raises, and \<open>load\<close> then finds a file
  that is not JSON and returns the empty list.
\<close>

theorem append_then_load_counterexample:
  "map_of [] (str ''t1'') = (None :: entry list option) \<and>
   load_all Absent = Inr (Dict []) \<and>
   append_store Absent (str ''t1'') [half_emoji_turn] =
     (Some UnicodeEncodeError, Present (Utf8 Not_json)) \<and>
   load (Present (Utf8 Not_json)) (str ''t1'') None = Inr [] \<and>
   [half_emoji_turn] \<noteq> []"
  using half_emoji_not_encodable
  by (simp add: append_store_def get_record_def save_all_def serialisable_def
        load_def read_and_parse_def)

text \<open>
  Claim C9, amended. For a thread \<open>t\<close> that the store does not know and every finite
  sequence of turns, when every string of the stored table, the thread id and every
  string of the turns can be encoded as UTF-8, \<open>append(t, turns)\<close> followed by
  \<open>load(t)\<close> returns exactly \<open>turns\<close>, in the same order; in general \<open>append\<close> then puts
  the turns at the end of the record that \<open>t\<close> has.
\<close>

theorem append_then_load:
  assumes "load_all f = Inr (Dict d)"
      and "serialisable d" and "encodable t" and "list_all entry_encodable turns"
  shows "\<exists>f'. append_store f t turns = (None, f') \<and>
           load f' t None = Inr (get_record d t @ turns) \<and>
           (map_of d t = None \<longrightarrow> load f' t None = Inr turns)"
proof -
  let ?d = "AList.update t (get_record d t @ turns) d"
  have "list_all entry_encodable (get_record d t @ turns)"
    using assms(2,4) by (simp add: serialisable_record)
  then have "serialisable ?d"
    using assms(2,3) by (rule serialisable_update [rotated 2])
  then have app: "append_store f t turns = (None, Present (Utf8 (Json ?d)))"
    by (simp add: append_store_Dict [OF assms(1)] save_all_ok)
  have "load (Present (Utf8 (Json ?d))) t None = Inr (get_record d t @ turns)"
    by (simp add: load_Dict [OF load_all_written] get_record_update window_def)
  moreover have "map_of d t = None \<Longrightarrow> get_record d t = []"
    by (simp add: get_record_def)
  ultimately show ?thesis
    using app by auto
qed

theorem append_then_load_witness:
  "\<exists>f'. append_store (Present (Utf8 Not_json)) (str ''t1'') [turn_one, turn_two] = (None, f') \<and>
      load f' (str ''t1'') None = Inr [turn_one, turn_two]"
proof -
  have parsed: "load_all (Present (Utf8 Not_json)) = Inr (Dict [])"
    by (simp add: read_and_parse_def)
  have empty: "serialisable []"
    by (simp add: serialisable_def)
  have tid: "encodable (str ''t1'')"
    by (rule encodable_str)
  have turns: "list_all entry_encodable [turn_one, turn_two]"
    by (simp add: entry_encodable_def encodable_str turn_one_def turn_two_def)
  show ?thesis
    using append_then_load [OF parsed empty tid turns]
    by (simp add: get_record_def)
qed

text \<open>
  Claim C10, as stated: with a parsable table, \<open>append(t, entries)\<close> leaves the record
  of every other thread as it was. \<open>_save_all\<close> rewrites the whole file in place; when
  an entry for \<open>t2\<close> cannot be encoded, the write stops part-way and the record of
  \<open>t1\<close> is gone with the rest of the table.
\<close>

theorem other_thread_unchanged_counterexample:
  "load one_thread_file (str ''t1'') None = Inr [turn_one, turn_two, turn_three] \<and>
   append_store one_thread_file (str ''t2'') [half_emoji_turn] =
     (Some UnicodeEncodeError, Present (Utf8 Not_json)) \<and>
   load (Present (Utf8 Not_json)) (str ''t1'') None = Inr [] \<and>
   str ''t2'' \<noteq> str ''t1''"
proof -
  have before: "load one_thread_file (str ''t1'') None = Inr [turn_one, turn_two, turn_three]"
    by (simp add: load_Dict [OF load_one_thread] record_one_thread window_def)
  have "\<not> serialisable (AList.update (str ''t2'')
            (get_record one_thread_table (str ''t2'') @ [half_emoji_turn]) one_thread_table)"
    using half_emoji_not_encodable
    by (simp add: serialisable_def one_thread_table_def get_record_def str_eq_iff)
  then have failed: "append_store one_thread_file (str ''t2'') [half_emoji_turn] =
                       (Some UnicodeEncodeError, Present (Utf8 Not_json))"
    by (simp add: append_store_Dict [OF load_one_thread] save_all_def)
  have after: "load (Present (Utf8 Not_json)) (str ''t1'') None = Inr []"
    by (simp add: load_def read_and_parse_def get_record_def)
  show ?thesis
    using before failed after by (simp add: str_eq_iff)
qed

text \<open>
  Claim C10, amended. For distinct threads \<open>t\<close> and \<open>u\<close> and a file that holds a table,
  when every string of the table and the thread id \<open>t\<close> can be encoded as UTF-8,
  \<open>clear(t)\<close> leaves the record of \<open>u\<close> as it was, and so does \<open>append(t, entries)\<close>
  when every string of the entries can be encoded as well: \<open>load(u)\<close> returns
  afterwards what it returned before, for every limit.
\<close>

theorem other_thread_unchanged:
  assumes "t \<noteq> u" and "serialisable d" and "encodable t"
  shows "(list_all entry_encodable entries \<longrightarrow>
           (\<exists>f'. append_store (Present (Utf8 (Json d))) t entries = (None, f') \<and>
                 load f' u n = load (Present (Utf8 (Json d))) u n)) \<and>
         (\<exists>f'. clear (Present (Utf8 (Json d))) t = (None, f') \<and>
               load f' u n = load (Present (Utf8 (Json d))) u n)"
proof -
  let ?f = "Present (Utf8 (Json d))"
  have same: "load (Present (Utf8 (Json (AList.update t es d)))) u n = load ?f u n" for es
    using assms(1)
    by (simp add: load_Dict [OF load_all_written] get_record_update)
  have cleared: "clear ?f t = (None, Present (Utf8 (Json (AList.update t [] d))))"
    using assms(2,3)
    by (simp add: clear_Dict [OF load_all_written] save_all_ok serialisable_update)
  have appended:
    "append_store ?f t entries =
       (None, Present (Utf8 (Json (AList.update t (get_record d t @ entries) d))))"
    if "list_all entry_encodable entries"
  proof -
    have "list_all entry_encodable (get_record d t @ entries)"
      using assms(2) that by (simp add: serialisable_record)
    then have "serialisable (AList.update t (get_record d t @ entries) d)"
      using assms(2,3) by (rule serialisable_update [rotated 2])
    then show ?thesis
      by (simp add: append_store_Dict [OF load_all_written] save_all_ok)
  qed
  show ?thesis
    using same cleared appended by auto
qed

theorem other_thread_unchanged_witness:
  "(\<exists>f'. append_store one_thread_file (str ''t2'') [turn_one] = (None, f') \<and>
          load f' (str ''t1'') None = Inr [turn_one, turn_two, turn_three]) \<and>
   (\<exists>f'. clear one_thread_file (str ''t2'') = (None, f') \<and>
          load f' (str ''t1'') None = Inr [turn_one, turn_two, turn_three])"
proof -
  have distinct: "str ''t2'' \<noteq> str ''t1''"
    by (simp add: str_eq_iff)
  have tid: "encodable (str ''t2'')"
    by (rule encodable_str)
  have turns: "list_all entry_encodable [turn_one]"
    by (simp add: entry_encodable_def encodable_str turn_one_def)
  have before: "load one_thread_file (str ''t1'') None = Inr [turn_one, turn_two, turn_three]"
    by (simp add: load_Dict [OF load_one_thread] record_one_thread window_def)
  show ?thesis
    using other_thread_unchanged [OF distinct serialisable_one_thread tid,
        of "[turn_one]" None]
      turns before
    by (simp add: one_thread_file_def)
qed
section \<open>Response extractor: properties\<close>

lemma scan_tool_call_skip:
  "\<forall>m\<in>set msgs. \<not> has_tool_calls m \<Longrightarrow>
     scan_tool_call (foldl scan_message s msgs) = scan_tool_call s"
proof (induction msgs arbitrary: s)
  case Nil
  then show ?case by simp
next
  case (Cons m msgs)
  then have "scan_tool_call (scan_message s m) = scan_tool_call s"
    by (cases "(s, m)" rule: scan_message.cases) (auto simp: Let_def split: list.splits)
  with Cons show ?case by simp
qed

lemma tool_result_skip:
  "\<forall>m\<in>set msgs. \<not> is_tool_message m \<Longrightarrow>
     tool_result (foldl scan_message s msgs) = tool_result s"
proof (induction msgs arbitrary: s)
  case Nil
  then show ?case by simp
next
  case (Cons m msgs)
  then have "tool_result (scan_message s m) = tool_result s"
    by (cases "(s, m)" rule: scan_message.cases) (auto simp: Let_def split: list.splits)
  with Cons show ?case by simp
qed

lemma scan_last_tool_call:
  "\<forall>m\<in>set post. \<not> has_tool_calls m \<Longrightarrow>
     scan_tool_call (scan_messages (pre @ AIMessage c (tc # tcs) md # post)) = Some tc"
  by (simp add: scan_messages_def scan_tool_call_skip Let_def)

lemma scan_last_tool_result:
  "\<forall>m\<in>set post. \<not> is_tool_message m \<Longrightarrow>
     tool_result (scan_messages (pre @ ToolMessage c a # post)) = Some a"
  by (simp add: scan_messages_def tool_result_skip)

lemma scan_two_calls:
  "scan_messages two_calls =
     \<lparr>final_ai = Some (str ''Done'', no_metadata), scan_tool_call = Some call_send,
      tool_result = Some None\<rparr>"
  by (simp add: scan_messages_def two_calls_def scan_init_def str_def)

lemma extract_two_calls:
  "extract_agent_data (Dict_result (Some two_calls)) =
     Inr \<lparr>final_message = Some (str ''Done''), model = None,
          tool_used = Some ''send_message'',
          tool_arguments = Some [(''to'', ''4915112345'')],
          whatsapp = None,
          data_tokens = \<lparr>tk_prompt = None, tk_completion = None, tk_total = None\<rparr>,
          success = False\<rparr>"
  by (simp add: extract_agent_data_def scan_two_calls whatsapp_of_def call_send_def
        Let_def token_usage_of_def no_metadata_def has_message_id_def)

text \<open>
  Claim C6, as stated: the extractor returns the name and arguments of the first
  message that carries tool calls, and the payload of the first tool result. In
  \<open>two_calls\<close> the first message with tool calls asks for \<open>lookup_contact\<close> and the
  first tool result carries the payload \<open>delivered\<close>; the extractor reports the later
  call \<open>send_message\<close> and the empty payload of the later tool result.
\<close>

theorem extractor_first_match_counterexample:
  "extract_agent_data (Dict_result (Some two_calls)) =
     Inr \<lparr>final_message = Some (str ''Done''), model = None,
          tool_used = Some ''send_message'',
          tool_arguments = Some [(''to'', ''4915112345'')],
          whatsapp = None,
          data_tokens = \<lparr>tk_prompt = None, tk_completion = None, tk_total = None\<rparr>,
          success = False\<rparr> \<and>
   tc_name call_lookup = Some ''lookup_contact'' \<and>
   tc_args call_lookup = Some [(''name'', ''Ann'')] \<and>
   whatsapp_of (Some (Some delivered)) =
     Inr (Some \<lparr>wd_messaging_product = Some ''whatsapp'', wd_wa_id = Some ''4915112345'',
                 wd_message_id = Some ''wamid.42''\<rparr>)"
  using extract_two_calls
  by (simp add: whatsapp_of_def call_lookup_def delivered_def first_item_def)

text \<open>
  Claim C6, amended. The extractor returns the name and arguments of the first tool
  call of the last message, in arrival order, that carries tool calls (a later message
  with tool calls overrides an earlier one), and the structured payload of the last
  tool-result message: it yields exactly what the artifact of that message yields.
\<close>

theorem extractor_last_match:
  "((\<forall>m\<in>set post. \<not> has_tool_calls m) \<and>
      extract_agent_data (Dict_result (Some (pre @ AIMessage c (tc # tcs) md # post))) = Inr d
      \<longrightarrow> tool_used d = tc_name tc \<and> tool_arguments d = tc_args tc) \<and>
   ((\<forall>m\<in>set post'. \<not> is_tool_message m)
      \<longrightarrow> map_sum id whatsapp
            (extract_agent_data (Dict_result (Some (pre' @ ToolMessage c' a # post'))))
          = whatsapp_of (Some a))"
proof (intro conjI impI)
  assume h: "(\<forall>m\<in>set post. \<not> has_tool_calls m) \<and>
      extract_agent_data (Dict_result (Some (pre @ AIMessage c (tc # tcs) md # post))) = Inr d"
  then have "scan_tool_call (scan_messages (pre @ AIMessage c (tc # tcs) md # post)) = Some tc"
    by (simp add: scan_last_tool_call)
  with h show "tool_used d = tc_name tc" and "tool_arguments d = tc_args tc"
    by (auto simp: extract_agent_data_def Let_def split: sum.splits)
next
  assume "\<forall>m\<in>set post'. \<not> is_tool_message m"
  then have "tool_result (scan_messages (pre' @ ToolMessage c' a # post')) = Some a"
    by (rule scan_last_tool_result)
  then show "map_sum id whatsapp
            (extract_agent_data (Dict_result (Some (pre' @ ToolMessage c' a # post'))))
          = whatsapp_of (Some a)"
    by (simp add: extract_agent_data_def Let_def split: sum.splits)
qed

theorem extractor_last_match_witness:
  "(\<exists>d. extract_agent_data (Dict_result (Some two_calls)) = Inr d \<and>
        tool_used d = tc_name call_send \<and> tool_arguments d = tc_args call_send) \<and>
   map_sum id whatsapp (extract_agent_data (Dict_result (Some two_calls))) =
     whatsapp_of (Some None)"
proof -
  let ?d = "\<lparr>final_message = Some (str ''Done''), model = None,
          tool_used = Some ''send_message'',
          tool_arguments = Some [(''to'', ''4915112345'')],
          whatsapp = None,
          data_tokens = \<lparr>tk_prompt = None, tk_completion = None, tk_total = None\<rparr>,
          success = False\<rparr>"
  have later_calls:
    "\<forall>m\<in>set [ToolMessage (str ''sent'') None, AIMessage (str ''Done'') [] no_metadata].
        \<not> has_tool_calls m"
    by simp
  have later_results: "\<forall>m\<in>set [AIMessage (str ''Done'') [] no_metadata]. \<not> is_tool_message m"
    by simp
  have shape1: "two_calls =
      [HumanMessage (str ''send it''), AIMessage [] [call_lookup] no_metadata,
       ToolMessage (str ''found'') (Some delivered)] @
      AIMessage [] (call_send # []) no_metadata #
      [ToolMessage (str ''sent'') None, AIMessage (str ''Done'') [] no_metadata]"
    by (simp add: two_calls_def)
  have shape2: "two_calls =
      [HumanMessage (str ''send it''), AIMessage [] [call_lookup] no_metadata,
       ToolMessage (str ''found'') (Some delivered), AIMessage [] [call_send] no_metadata] @
      ToolMessage (str ''sent'') None # [AIMessage (str ''Done'') [] no_metadata]"
    by (simp add: two_calls_def)
  show ?thesis
    using extract_two_calls later_calls later_results
      extractor_last_match [of
        "[ToolMessage (str ''sent'') None, AIMessage (str ''Done'') [] no_metadata]"
        "[HumanMessage (str ''send it''), AIMessage [] [call_lookup] no_metadata,
          ToolMessage (str ''found'') (Some delivered)]"
        "[]" call_send "[]" no_metadata ?d
        "[AIMessage (str ''Done'') [] no_metadata]"
        "[HumanMessage (str ''send it''), AIMessage [] [call_lookup] no_metadata,
          ToolMessage (str ''found'') (Some delivered), AIMessage [] [call_send] no_metadata]"
        "str ''sent''" None]
    unfolding shape1 [symmetric] shape2 [symmetric]
    by simp
qed

text \<open>
  Claim C7. The claim is that \<open>extract_agent_data\<close> never raises, also for a tool
  result whose structured payload has an empty list of contacts. There
  \<open>structured.get("contacts", [{}])[0]\<close> reads the first item of the empty list: the
  default \<open>[{}]\<close> covers the absent key only.
\<close>

theorem extract_agent_data_empty_contacts:
  "extract_agent_data
     (Dict_result (Some [AIMessage (str ''Done'') [] no_metadata,
                         ToolMessage (str ''sent'') (Some no_contacts)])) = Inl IndexError"
  by (simp add: extract_agent_data_def scan_messages_def scan_init_def whatsapp_of_def
        no_contacts_def first_item_def str_def)

section \<open>Connection manager: properties\<close>

lemma connect_loop_append:
  "connect_loop w (xs @ ys) acc c =
     (case connect_loop w xs acc c of
        (Inl e, c') \<Rightarrow> (Inl e, c')
      | (Inr ts, c') \<Rightarrow> connect_loop w ys ts c')"
  by (induction xs arbitrary: acc c) (auto split: prod.splits sum.splits)

lemma connect_stdio_frame:
  "connect_stdio w s c = (r, c') \<Longrightarrow>
     agent c' = agent c \<and> tools c' = tools c \<and> (tracked c \<longrightarrow> tracked c')"
  by (auto simp: connect_stdio_def enter_context_def Let_def tracked_def
        split: option.splits stdio_outcome.splits)

lemma connect_http_frame:
  "connect_http w s c = (r, c') \<Longrightarrow>
     agent c' = agent c \<and> tools c' = tools c \<and> (tracked c \<longrightarrow> tracked c')"
  by (auto simp: connect_http_def tracked_def split: http_outcome.splits)

lemma connect_loop_frame:
  "connect_loop w specs acc c = (r, c') \<Longrightarrow>
     agent c' = agent c \<and> tools c' = tools c \<and> (tracked c \<longrightarrow> tracked c')"
proof (induction specs arbitrary: acc c)
  case Nil
  then show ?case by simp
next
  case (Cons s specs)
  show ?case
  proof (cases "transport s = ''stdio''")
    case True
    obtain r1 c1 where one: "connect_stdio w s c = (r1, c1)"
      by (cases "connect_stdio w s c")
    note f1 = connect_stdio_frame [OF one]
    show ?thesis
    proof (cases r1)
      case (Inl e)
      with Cons.prems True one f1 show ?thesis by auto
    next
      case (Inr ts)
      with Cons.prems True one have "connect_loop w specs (acc @ ts) c1 = (r, c')"
        by simp
      from Cons.IH [OF this] f1 show ?thesis by simp
    qed
  next
    case False
    note not_stdio = this
    show ?thesis
    proof (cases "transport s = ''http''")
      case True
      obtain r1 c1 where one: "connect_http w s c = (r1, c1)"
        by (cases "connect_http w s c")
      note f1 = connect_http_frame [OF one]
      show ?thesis
      proof (cases r1)
        case (Inl e)
        with Cons.prems True not_stdio one f1 show ?thesis by auto
      next
        case (Inr ts)
        with Cons.prems True not_stdio one
        have "connect_loop w specs (acc @ ts) c1 = (r, c')"
          by simp
        from Cons.IH [OF this] f1 show ?thesis by simp
      qed
    next
      case False
      with Cons.prems not_stdio show ?thesis by auto
    qed
  qed
qed

lemma close_twice: "close w (snd (close w c)) = (None, snd (close w c))"
  by (simp add: close_def)

lemma close_releases:
  "tracked c \<Longrightarrow>
     set (opened c) \<subseteq> set (released (snd (close w c))) \<and>
     exit_stack (snd (close w c)) = []"
  by (auto simp: close_def tracked_def)

lemma connect_local:
  "connect_loop one_tool_world [local_spec] [] (client_of specs None) =
     (Inr [Tool ''send_message''], local_client specs)"
  by (simp add: connect_stdio_def one_tool_world_def local_spec_def client_of_def
        local_client_def enter_context_def endswith_def Let_def)

lemma connect_loop_after:
  "connect_loop w pre acc c = (Inr ts, c1) \<Longrightarrow>
     connect_loop w (pre @ rest) acc c = connect_loop w rest ts c1"
  by (simp add: connect_loop_append)

lemma connect_local_socket:
  "connect_loop one_tool_world (local_spec # socket_spec # rest) [] (client_of specs None) =
     (Inl (ValueError ''Unsupported transport: websocket''), local_client specs)"
proof -
  have split: "local_spec # socket_spec # rest = [local_spec] @ socket_spec # rest"
    by simp
  show ?thesis
    by (subst split, subst connect_loop_after [OF connect_local])
       (simp add: socket_spec_def)
qed

lemma connect_local_remote:
  "connect_loop one_tool_world (local_spec # remote_spec # rest) [] (client_of specs None) =
     (Inl (Other_error ''connection refused''), local_client specs)"
proof -
  have split: "local_spec # remote_spec # rest = [local_spec] @ remote_spec # rest"
    by simp
  show ?thesis
    by (subst split, subst connect_loop_after [OF connect_local])
       (simp add: remote_spec_def connect_http_def one_tool_world_def)
qed

lemma servers_client_of: "servers (client_of specs a) = specs"
  by (simp add: client_of_def)

lemma connect_socket_after_local:
  "connect one_tool_world (client_of (local_spec # socket_spec # rest) None) =
     (Some (ValueError ''Unsupported transport: websocket''),
      local_client (local_spec # socket_spec # rest))"
  by (simp add: connect_def servers_client_of connect_local_socket del: connect_loop.simps)

lemma connect_remote_after_local:
  "connect one_tool_world (client_of (local_spec # remote_spec # rest) None) =
     (Some (Other_error ''connection refused''),
      local_client (local_spec # remote_spec # rest))"
  by (simp add: connect_def servers_client_of connect_local_remote del: connect_loop.simps)

text \<open>
  Claim C3, as stated: a sequence of specs that contains an unknown transport makes
  \<open>connect\<close> fail before any connection is opened. With the stdio spec in front of the
  unknown one, the subprocess and its session have been opened, and are still on the
  exit stack, when the \<open>ValueError\<close> is raised.
\<close>

theorem unknown_transport_counterexample:
  "fst (connect one_tool_world (client_of [local_spec, socket_spec] None)) =
     Some (ValueError ''Unsupported transport: websocket'') \<and>
   opened (snd (connect one_tool_world (client_of [local_spec, socket_spec] None))) =
     [Stdio_transport ''python'' [''server.py''], Client_session ''local''] \<and>
   released (snd (connect one_tool_world (client_of [local_spec, socket_spec] None))) = []"
  unfolding connect_socket_after_local
  by (simp add: local_client_def client_of_def)

text \<open>
  Claim C3, amended. When the specs in front of the first spec with an unknown
  transport connect, \<open>connect\<close> fails with the configuration error
  \<open>ValueError("Unsupported transport: ...")\<close> and leaves the client exactly as the
  connections to those earlier specs left it: no connection is opened for the unknown
  spec or for any spec after it, and none at all when the unknown spec comes first.
  What the earlier specs have opened is then either released already or on the exit
  stack, if that held before the call.
\<close>

theorem unknown_transport_fails:
  assumes "servers c = pre @ s # post"
      and "transport s \<noteq> ''stdio''" and "transport s \<noteq> ''http''"
      and "connect_loop w pre [] c = (Inr ts, c1)"
  shows "connect w c = (Some (ValueError (''Unsupported transport: '' @ transport s)), c1) \<and>
         (pre = [] \<longrightarrow> c1 = c) \<and>
         (tracked c \<longrightarrow> tracked c1)"
  using assms connect_loop_frame [of w pre "[]" c "Inr ts" c1]
  by (auto simp: connect_def connect_loop_append)

theorem unknown_transport_fails_witness:
  "connect one_tool_world (client_of [local_spec, socket_spec, remote_spec] None) =
     (Some (ValueError ''Unsupported transport: websocket''),
      local_client [local_spec, socket_spec, remote_spec]) \<and>
   connect one_tool_world (client_of [socket_spec, local_spec] None) =
     (Some (ValueError ''Unsupported transport: websocket''),
      client_of [socket_spec, local_spec] None)"
proof -
  have specs1: "servers (client_of [local_spec, socket_spec, remote_spec] None) =
                  [local_spec] @ socket_spec # [remote_spec]"
    by (simp add: client_of_def)
  have specs2: "servers (client_of [socket_spec, local_spec] None) =
                  [] @ socket_spec # [local_spec]"
    by (simp add: client_of_def)
  have t1: "transport socket_spec \<noteq> ''stdio''" and t2: "transport socket_spec \<noteq> ''http''"
    by (simp_all add: socket_spec_def)
  have none: "connect_loop one_tool_world [] [] (client_of [socket_spec, local_spec] None) =
                (Inr [], client_of [socket_spec, local_spec] None)"
    by simp
  show ?thesis
    using unknown_transport_fails [OF specs1 t1 t2 connect_local]
      unknown_transport_fails [OF specs2 t1 t2 none]
    by (simp add: socket_spec_def)
qed

text \<open>
  Claim C4. When connecting to server \<open>N\<close> of \<open>M\<close> fails after the servers in front of
  it have connected, or when all servers connect and no tool is discovered, \<open>connect\<close>
  raises the triggering error and leaves \<open>agent\<close> and \<open>tools\<close> as they were (the
  session stays unconnected). Every resource opened so far is released once \<open>close\<close>
  has run, which empties the exit stack; a second \<open>close\<close> does nothing and raises
  nothing.
\<close>

theorem connect_failure_contained:
  assumes "tracked c"
      and "(servers c = pre @ s # post \<and> connect_loop w pre [] c = (Inr ts, c1) \<and>
            fst (connect_loop w [s] ts c1) = Inl e) \<or>
           (fst (connect_loop w (servers c) [] c) = Inr [] \<and>
            e = RuntimeError ''No MCP tools discovered'')"
  shows "fst (connect w c) = Some e \<and>
         agent (snd (connect w c)) = agent c \<and>
         tools (snd (connect w c)) = tools c \<and>
         set (opened (snd (connect w c))) \<subseteq>
           set (released (snd (close w (snd (connect w c))))) \<and>
         exit_stack (snd (close w (snd (connect w c)))) = [] \<and>
         close w (snd (close w (snd (connect w c)))) =
           (None, snd (close w (snd (connect w c))))"
proof -
  obtain r c' where loop: "connect_loop w (servers c) [] c = (r, c')"
    by (cases "connect_loop w (servers c) [] c")
  note fr = connect_loop_frame [OF loop]
  have "r = Inl e \<or> (r = Inr [] \<and> e = RuntimeError ''No MCP tools discovered'')"
    using assms(2) loop
    by (auto simp: connect_loop_append split: prod.splits sum.splits if_splits)
  then have conn: "connect w c = (Some e, c')"
    using loop by (auto simp: connect_def)
  have "tracked c'"
    using fr assms(1) by simp
  from close_releases [OF this, of w] conn fr show ?thesis
    by (simp add: close_twice)
qed

theorem connect_failure_contained_witness:
  "(fst (connect one_tool_world (client_of [local_spec, remote_spec] None)) =
      Some (Other_error ''connection refused'') \<and>
    agent (snd (connect one_tool_world (client_of [local_spec, remote_spec] None))) =
      agent (client_of [local_spec, remote_spec] None) \<and>
    tools (snd (connect one_tool_world (client_of [local_spec, remote_spec] None))) =
      tools (client_of [local_spec, remote_spec] None) \<and>
    set (opened (snd (connect one_tool_world (client_of [local_spec, remote_spec] None))))
      \<subseteq> set (released (snd (close one_tool_world
            (snd (connect one_tool_world (client_of [local_spec, remote_spec] None)))))) \<and>
    exit_stack (snd (close one_tool_world
      (snd (connect one_tool_world (client_of [local_spec, remote_spec] None))))) = [] \<and>
    close one_tool_world (snd (close one_tool_world
      (snd (connect one_tool_world (client_of [local_spec, remote_spec] None))))) =
      (None, snd (close one_tool_world
         (snd (connect one_tool_world (client_of [local_spec, remote_spec] None)))))) \<and>
   opened (snd (connect one_tool_world (client_of [local_spec, remote_spec] None))) =
     [Stdio_transport ''python'' [''server.py''], Client_session ''local''] \<and>
   fst (connect no_tool_world (client_of [local_spec] None)) =
     Some (RuntimeError ''No MCP tools discovered'')"
proof -
  let ?c = "client_of [local_spec, remote_spec] None"
  let ?k = "client_of [local_spec] None"
  have tr: "tracked ?c" and tr': "tracked ?k"
    by (simp_all add: tracked_def client_of_def)
  have refused: "fst (connect_loop one_tool_world [remote_spec] [Tool ''send_message'']
                   (local_client [local_spec, remote_spec])) =
                 Inl (Other_error ''connection refused'')"
    by (simp add: connect_http_def one_tool_world_def remote_spec_def)
  have first: "servers ?c = [local_spec] @ remote_spec # [] \<and>
               connect_loop one_tool_world [local_spec] [] ?c =
                 (Inr [Tool ''send_message''], local_client [local_spec, remote_spec]) \<and>
               fst (connect_loop one_tool_world [remote_spec] [Tool ''send_message'']
                      (local_client [local_spec, remote_spec])) =
                 Inl (Other_error ''connection refused'')"
    using refused by (simp add: connect_local servers_client_of del: connect_loop.simps)
  have empty_result: "fst (connect_loop no_tool_world (servers ?k) [] ?k) = Inr [] \<and>
                 RuntimeError ''No MCP tools discovered'' =
                   RuntimeError ''No MCP tools discovered''"
    by (simp add: connect_stdio_def no_tool_world_def one_tool_world_def local_spec_def
          client_of_def enter_context_def endswith_def Let_def)
  have opened_c: "opened (snd (connect one_tool_world ?c)) =
                    [Stdio_transport ''python'' [''server.py''], Client_session ''local'']"
    unfolding connect_remote_after_local
    by (simp add: local_client_def client_of_def)
  have server_fails:
    "fst (connect one_tool_world ?c) = Some (Other_error ''connection refused'') \<and>
     agent (snd (connect one_tool_world ?c)) = agent ?c \<and>
     tools (snd (connect one_tool_world ?c)) = tools ?c \<and>
     set (opened (snd (connect one_tool_world ?c))) \<subseteq>
       set (released (snd (close one_tool_world (snd (connect one_tool_world ?c))))) \<and>
     exit_stack (snd (close one_tool_world (snd (connect one_tool_world ?c)))) = [] \<and>
     close one_tool_world (snd (close one_tool_world (snd (connect one_tool_world ?c)))) =
       (None, snd (close one_tool_world (snd (connect one_tool_world ?c))))"
    by (rule connect_failure_contained [OF tr disjI1 [OF first]])
  have no_tools:
    "fst (connect no_tool_world ?k) = Some (RuntimeError ''No MCP tools discovered'') \<and>
     agent (snd (connect no_tool_world ?k)) = agent ?k \<and>
     tools (snd (connect no_tool_world ?k)) = tools ?k \<and>
     set (opened (snd (connect no_tool_world ?k))) \<subseteq>
       set (released (snd (close no_tool_world (snd (connect no_tool_world ?k))))) \<and>
     exit_stack (snd (close no_tool_world (snd (connect no_tool_world ?k)))) = [] \<and>
     close no_tool_world (snd (close no_tool_world (snd (connect no_tool_world ?k)))) =
       (None, snd (close no_tool_world (snd (connect no_tool_world ?k))))"
    by (rule connect_failure_contained [OF tr' disjI2 [OF empty_result]])
  from server_fails opened_c no_tools show ?thesis
    by blast
qed

section \<open>Conversational session: properties\<close>

lemma agent_client_of: "agent (client_of specs a) = a"
  by (simp add: client_of_def)


text \<open>
  Claim C1. When the agent call inside \<open>invoke\<close> raises, \<open>invoke\<close> returns a fixed
  string (the apology for a timeout, the technical-issue string for every other
  exception) and hands back the client and the store file as they were: nothing is
  appended to the store, the in-memory history is the same, and no exception leaves
  \<open>invoke\<close>, so the next \<open>invoke\<close> finds the session as before.
\<close>

theorem invoke_agent_raises:
  assumes "agent c = Some a"
      and "a (prompt_state (history c) user_input) = Raises e"
  shows "invoke w user_input c f =
           (if e = TimeoutError then timeout_reply else technical_reply, c, f)"
  using assms by (cases e) (simp_all add: invoke_def invoke_try_def)

theorem invoke_agent_raises_witness:
  "invoke one_tool_world (str ''hi'') (client_of [remote_spec] (Some slow_agent))
     one_thread_file =
     (timeout_reply, client_of [remote_spec] (Some slow_agent), one_thread_file) \<and>
   invoke one_tool_world (str ''hi'') (client_of [remote_spec] (Some broken_agent))
     one_thread_file =
     (technical_reply, client_of [remote_spec] (Some broken_agent), one_thread_file)"
proof -
  have slow:
    "slow_agent (prompt_state (history (client_of [remote_spec] (Some slow_agent)))
       (str ''hi'')) = Raises TimeoutError"
    by (simp add: slow_agent_def)
  have broken:
    "broken_agent (prompt_state (history (client_of [remote_spec] (Some broken_agent)))
       (str ''hi'')) = Raises (Other_error ''rate limit'')"
    by (simp add: broken_agent_def)
  have slow_set: "agent (client_of [remote_spec] (Some slow_agent)) = Some slow_agent"
    by (rule agent_client_of)
  have broken_set: "agent (client_of [remote_spec] (Some broken_agent)) = Some broken_agent"
    by (rule agent_client_of)
  show ?thesis
    using invoke_agent_raises [OF slow_set slow, of one_tool_world one_thread_file]
      invoke_agent_raises [OF broken_set broken, of one_tool_world one_thread_file]
    by simp
qed



end
